theory Spec2Isabelle
  imports Main "HOL-Library.Sublist"
begin

section \<open>The agent launch script, scripts/launch\_agent\_python.py\<close>

text \<open>
  The script defines one class, \<open>MyAgent\<close>, with a constructor and two methods that
  print, and a \<open>main\<close> that constructs an agent and launches it. Python objects are
  held by reference, so the model has a heap of objects; standard output is the text
  written so far; every function takes the program state and returns its result with
  the new state. A raised exception is the \<open>Inl\<close> of the result.
\<close>

subsection \<open>Objects and program state\<close>

type_synonym addr = nat

record MyAgent =
  name :: "string option"
  hook :: "addr option"
  source :: "addr option"
  response_handler :: "addr option"
  \<comment> \<open>the instance attributes; \<open>None\<close> while \<open>__init__\<close> has not assigned one yet\<close>

text \<open>
  Modelled from the spec: the classes \<open>Identity\<close>, \<open>DefaultHook\<close> and
  \<open>DefaultResponseHandler\<close> are imported from a framework that is not part of the
  source. The spec gives them as an Identity constructible from an id and a name, a Hook
  constructible from an ordered sequence of registrations, and a ResponseHandler
  constructible from an Identity and a Hook, to which it is bound. Each is a
  constructor holding its arguments; a Python list holds references, and the handler
  holds its two arguments as references.
  Names and identifiers are stored as they are given and never printed or encoded by
  the script; they are held as strings.
\<close>

datatype obj =
    Identity (identity_id: string) (identity_name: string)
  | DefaultHook (registrations: "addr list")
  | DefaultResponseHandler (handler_source: addr) (handler_hook: addr)
  | Agent MyAgent

datatype error = IdentifierGenerationFailure | AttributeError | UnicodeEncodeError

record 'g state =
  heap :: "obj list"
  stdout :: string
  ulid_state :: 'g

text \<open>
  Modelled from the spec: \<open>ulid.new().str\<close> is the external unique-identifier
  generator, \<open>a "new identifier" operation returning a string\<close>, whose failure
  propagates to the caller. It is a parameter of the model: a step on the generator's
  own state \<open>'g\<close> that returns an identifier or fails.
\<close>

type_synonym 'g ulid_new = "'g \<Rightarrow> (error + string) \<times> 'g"

abbreviation LF :: char where
  "LF \<equiv> CHR 0x0A"

text \<open>
  The text that is printed is a Python \<open>str\<close>: a sequence of code points, each below
  \<open>0x110000\<close>, surrogates included. A literal of the script is ASCII text.
\<close>

type_synonym codepoint = nat

type_synonym str = "codepoint list"

definition ascii :: "string \<Rightarrow> str" where
  "ascii s = map of_char s"

text \<open>
  Standard output is a text stream that encodes what it is given as UTF-8, Python's
  default, and holds bytes. A surrogate code point has no UTF-8 form; the codec is
  strict and rejects it.
\<close>

definition utf8_char :: "codepoint \<Rightarrow> string option" where
  "utf8_char c =
     (if c < 0x80 then Some [char_of c]
      else if c < 0x800 then Some [char_of (0xC0 + c div 0x40), char_of (0x80 + c mod 0x40)]
      else if 0xD800 \<le> c \<and> c < 0xE000 then None
      else if c < 0x10000 then
        Some [char_of (0xE0 + c div 0x1000), char_of (0x80 + c div 0x40 mod 0x40),
              char_of (0x80 + c mod 0x40)]
      else if c < 0x110000 then
        Some [char_of (0xF0 + c div 0x40000), char_of (0x80 + c div 0x1000 mod 0x40),
              char_of (0x80 + c div 0x40 mod 0x40), char_of (0x80 + c mod 0x40)]
      else None)"

fun utf8 :: "str \<Rightarrow> string option" where
  "utf8 [] = Some []"
| "utf8 (c # cs) =
     (case utf8_char c of
        None \<Rightarrow> None
      | Some b \<Rightarrow> (case utf8 cs of None \<Rightarrow> None | Some bs \<Rightarrow> Some (b @ bs)))"


text \<open>
  \<open>print(s)\<close> writes the text and then a line feed to standard output. When the
  stream cannot encode the text, the write raises \<open>UnicodeEncodeError\<close> and nothing
  has been written.
\<close>

definition print :: "str \<Rightarrow> 'g state \<Rightarrow> (error + unit) \<times> 'g state" where
  "print s \<sigma> =
     (case utf8 s of
        None \<Rightarrow> (Inl UnicodeEncodeError, \<sigma>)
      | Some bs \<Rightarrow> (Inr (), \<sigma>\<lparr>stdout := stdout \<sigma> @ bs @ [LF]\<rparr>))"

definition alloc :: "obj \<Rightarrow> 'g state \<Rightarrow> addr \<times> 'g state" where
  "alloc ob \<sigma> = (length (heap \<sigma>), \<sigma>\<lparr>heap := heap \<sigma> @ [ob]\<rparr>)"

definition lookup :: "'g state \<Rightarrow> addr \<Rightarrow> obj option" where
  "lookup \<sigma> a = (if a < length (heap \<sigma>) then Some (heap \<sigma> ! a) else None)"

definition setattr :: "addr \<Rightarrow> (MyAgent \<Rightarrow> MyAgent) \<Rightarrow> 'g state \<Rightarrow> 'g state" where
  "setattr self f \<sigma> =
     (case lookup \<sigma> self of
        Some (Agent ag) \<Rightarrow> \<sigma>\<lparr>heap := (heap \<sigma>)[self := Agent (f ag)]\<rparr>
      | _ \<Rightarrow> \<sigma>)"

definition getattr :: "'g state \<Rightarrow> addr \<Rightarrow> (MyAgent \<Rightarrow> 'a option) \<Rightarrow> 'a option" where
  "getattr \<sigma> self field =
     (case lookup \<sigma> self of
        Some (Agent ag) \<Rightarrow> field ag
      | _ \<Rightarrow> None)"

subsection \<open>The class MyAgent\<close>

text \<open>
  Modelled from the spec: \<open>AbstractAgent.__init__\<close>, the base-class constructor
  called by \<open>super().__init__(name)\<close>, is not part of the source. The spec's Agent
  is a named entity that holds its name; the base constructor stores the name it is
  given.
\<close>

definition AbstractAgent_init :: "addr \<Rightarrow> string \<Rightarrow> 'g state \<Rightarrow> 'g state" where
  "AbstractAgent_init self nm \<sigma> = setattr self (name_update (\<lambda>_. Some nm)) \<sigma>"

text \<open>
  \<^verbatim>\<open>
    def __init__(self, name):
        super().__init__(name)
        self.hook = DefaultHook([])
        self.source = Identity(id=ulid.new().str, name=name)
        self.response_handler = DefaultResponseHandler(self.source, self.hook)
  \<close>
\<close>

definition MyAgent_init ::
  "'g ulid_new \<Rightarrow> addr \<Rightarrow> string \<Rightarrow> 'g state \<Rightarrow> (error + unit) \<times> 'g state" where
  "MyAgent_init new self nm \<sigma>0 =
     (let \<sigma>1 = AbstractAgent_init self nm \<sigma>0;
          (h, \<sigma>2) = alloc (DefaultHook []) \<sigma>1;
          \<sigma>3 = setattr self (hook_update (\<lambda>_. Some h)) \<sigma>2
      in case new (ulid_state \<sigma>3) of
           (Inl e, g) \<Rightarrow> (Inl e, \<sigma>3\<lparr>ulid_state := g\<rparr>)
         | (Inr i, g) \<Rightarrow>
             (let (src, \<sigma>4) = alloc (Identity i nm) (\<sigma>3\<lparr>ulid_state := g\<rparr>);
                  \<sigma>5 = setattr self (source_update (\<lambda>_. Some src)) \<sigma>4
              in case (getattr \<sigma>5 self source, getattr \<sigma>5 self hook) of
                   (Some s, Some h') \<Rightarrow>
                     (let (rh, \<sigma>6) = alloc (DefaultResponseHandler s h') \<sigma>5
                      in (Inr (), setattr self (response_handler_update (\<lambda>_. Some rh)) \<sigma>6))
                 | _ \<Rightarrow> (Inl AttributeError, \<sigma>5)))"

text \<open>
  The call \<open>MyAgent(name)\<close>: a new instance with no attribute yet, then
  \<open>__init__\<close> on it; the instance is the result unless \<open>__init__\<close> raises.
\<close>

definition MyAgent_new :: "'g ulid_new \<Rightarrow> string \<Rightarrow> 'g state \<Rightarrow> (error + addr) \<times> 'g state" where
  "MyAgent_new new nm \<sigma> =
     (let (self, \<sigma>1) =
            alloc (Agent \<lparr>name = None, hook = None, source = None, response_handler = None\<rparr>) \<sigma>
      in case MyAgent_init new self nm \<sigma>1 of
           (Inl e, \<sigma>') \<Rightarrow> (Inl e, \<sigma>')
         | (Inr u, \<sigma>') \<Rightarrow> (Inr self, \<sigma>'))"

text \<open>
  \<^verbatim>\<open>
    def assist(self, query):
        print(f"Assisting with query: {query}")

    def launch(self):
        print("Agent launched")
  \<close>
  The query is text, which the f-string inserts as it is. Each method ends with its
  \<open>print\<close>: it returns nothing when the \<open>print\<close> returns, and an exception of
  the \<open>print\<close> leaves the method.
\<close>

definition assist :: "addr \<Rightarrow> str \<Rightarrow> 'g state \<Rightarrow> (error + unit) \<times> 'g state" where
  "assist self query \<sigma> = print (ascii ''Assisting with query: '' @ query) \<sigma>"

definition launch :: "addr \<Rightarrow> 'g state \<Rightarrow> (error + unit) \<times> 'g state" where
  "launch self \<sigma> = print (ascii ''Agent launched'') \<sigma>"

subsection \<open>The entry point\<close>

text \<open>
  \<^verbatim>\<open>
    def main():
        agent = MyAgent("MyAgent")
        agent.launch()

    if __name__ == "__main__":
        main()
  \<close>
  The process exits with status 0 when \<open>main\<close> returns and with status 1 when an
  exception leaves it.
\<close>

definition main :: "'g ulid_new \<Rightarrow> 'g state \<Rightarrow> (error + unit) \<times> 'g state" where
  "main new \<sigma> =
     (case MyAgent_new new ''MyAgent'' \<sigma> of
        (Inl e, \<sigma>') \<Rightarrow> (Inl e, \<sigma>')
      | (Inr agent, \<sigma>') \<Rightarrow> launch agent \<sigma>')"

definition exit_status :: "error + unit \<Rightarrow> nat" where
  "exit_status r = (case r of Inl e \<Rightarrow> 1 | Inr u \<Rightarrow> 0)"

definition script :: "'g ulid_new \<Rightarrow> 'g state \<Rightarrow> nat \<times> 'g state" where
  "script new \<sigma> = (let (r, \<sigma>') = main new \<sigma> in (exit_status r, \<sigma>'))"

subsection \<open>Observations\<close>

text \<open>The text a run from \<open>\<sigma>\<close> to \<open>\<sigma>'\<close> has added to standard output.\<close>

definition written :: "'g state \<Rightarrow> 'h state \<Rightarrow> string" where
  "written \<sigma> \<sigma>' = drop (length (stdout \<sigma>)) (stdout \<sigma>')"

text \<open>
  The lines of a text: a line ends at each line feed, and text after the last line
  feed is a last, unterminated line.
\<close>

fun lines_from :: "string \<Rightarrow> string \<Rightarrow> string list" where
  "lines_from cur [] = (if cur = [] then [] else [cur])"
| "lines_from cur (c # cs) =
     (if c = LF then cur # lines_from [] cs else lines_from (cur @ [c]) cs)"

definition lines_of :: "string \<Rightarrow> string list" where
  "lines_of s = lines_from [] s"

text \<open>Reading an agent's collaborators through its attributes.\<close>

definition hook_of :: "'g state \<Rightarrow> addr \<Rightarrow> obj option" where
  "hook_of \<sigma> a = (case getattr \<sigma> a hook of Some h \<Rightarrow> lookup \<sigma> h | None \<Rightarrow> None)"

definition identity_of :: "'g state \<Rightarrow> addr \<Rightarrow> obj option" where
  "identity_of \<sigma> a = (case getattr \<sigma> a source of Some s \<Rightarrow> lookup \<sigma> s | None \<Rightarrow> None)"

definition agent_id :: "'g state \<Rightarrow> addr \<Rightarrow> string option" where
  "agent_id \<sigma> a =
     (case identity_of \<sigma> a of Some (Identity i n) \<Rightarrow> Some i | _ \<Rightarrow> None)"

text \<open>
  Agents constructed one after the other, one for each name of a list; an exception of
  a construction ends the sequence.
\<close>

fun construct_all ::
  "'g ulid_new \<Rightarrow> string list \<Rightarrow> 'g state \<Rightarrow> (error + addr list) \<times> 'g state" where
  "construct_all new [] \<sigma> = (Inr [], \<sigma>)"
| "construct_all new (nm # nms) \<sigma> =
     (case MyAgent_new new nm \<sigma> of
        (Inl e, \<sigma>1) \<Rightarrow> (Inl e, \<sigma>1)
      | (Inr a, \<sigma>1) \<Rightarrow>
          (case construct_all new nms \<sigma>1 of
             (Inl e, \<sigma>2) \<Rightarrow> (Inl e, \<sigma>2)
           | (Inr as, \<sigma>2) \<Rightarrow> (Inr (a # as), \<sigma>2)))"

text \<open>
  The references an object holds, and the objects of the heap that hold a reference to
  a given address.
\<close>

fun opt_ref :: "addr option \<Rightarrow> addr list" where
  "opt_ref None = []"
| "opt_ref (Some a) = [a]"

fun refs :: "obj \<Rightarrow> addr list" where
  "refs (Identity i n) = []"
| "refs (DefaultHook rs) = rs"
| "refs (DefaultResponseHandler s h) = [s, h]"
| "refs (Agent ag) = opt_ref (hook ag) @ opt_ref (source ag) @ opt_ref (response_handler ag)"

definition holders :: "'g state \<Rightarrow> addr \<Rightarrow> addr list" where
  "holders \<sigma> r = filter (\<lambda>a. r \<in> set (refs (heap \<sigma> ! a))) [0 ..< length (heap \<sigma>)]"

text \<open>A heap is closed when every reference held in it is to an allocated object.\<close>

definition closed :: "'g state \<Rightarrow> bool" where
  "closed \<sigma> = (\<forall>ob \<in> set (heap \<sigma>). \<forall>r \<in> set (refs ob). r < length (heap \<sigma>))"

text \<open>
  Modelled from the spec: what the spec says of the external identifier generator, that
  an identifier is a non-empty string and that identifiers are unique across repeated
  calls. \<open>issued new g n\<close> are the identifiers that \<open>n\<close> successive calls return
  from the generator state \<open>g\<close>; uniqueness over a run of \<open>n\<close> calls from \<open>g\<close>
  is \<open>distinct (issued new g n)\<close>, a property of that run and not of every run of
  any length, which no generator of identifiers of a fixed length has.
\<close>

fun issued :: "'g ulid_new \<Rightarrow> 'g \<Rightarrow> nat \<Rightarrow> string list" where
  "issued new g 0 = []"
| "issued new g (Suc n) =
     (case new g of
        (Inl e, g') \<Rightarrow> issued new g' n
      | (Inr i, g') \<Rightarrow> i # issued new g' n)"

definition nonempty_ids :: "'g ulid_new \<Rightarrow> bool" where
  "nonempty_ids new = (\<forall>g i g'. new g = (Inr i, g') \<longrightarrow> i \<noteq> [])"

text \<open>
  A generator and a start state to run the program on: the generator counts its calls
  and returns as many zeros as it has been called; the program starts with an empty
  heap and nothing written.
\<close>

definition counting_ulid :: "nat ulid_new" where
  "counting_ulid k = (Inr (replicate (Suc k) (CHR ''0'')), Suc k)"

definition initial :: "nat state" where
  "initial = \<lparr>heap = [], stdout = [], ulid_state = 0\<rparr>"

section \<open>Properties\<close>

subsection \<open>Encoding and printing\<close>


lemma utf8_char_of_char: "of_char c < (0x80::nat) \<Longrightarrow> utf8_char (of_char c) = Some [c]"
  by (simp add: utf8_char_def)

lemma utf8_ascii: "\<forall>c \<in> set s. of_char c < (0x80::nat) \<Longrightarrow> utf8 (ascii s) = Some s"
  by (induction s) (simp_all add: ascii_def utf8_char_of_char)

lemma utf8_ascii_launched: "utf8 (ascii ''Agent launched'') = Some ''Agent launched''"
  by (rule utf8_ascii) simp










lemma print_Some:
  "utf8 s = Some bs \<Longrightarrow> print s \<sigma> = (Inr (), \<sigma>\<lparr>stdout := stdout \<sigma> @ bs @ [LF]\<rparr>)"
  by (simp add: print_def)


lemma launch_run:
  "launch self \<sigma> = (Inr (), \<sigma>\<lparr>stdout := stdout \<sigma> @ ''Agent launched'' @ [LF]\<rparr>)"
  unfolding launch_def by (rule print_Some) (rule utf8_ascii_launched)








subsection \<open>Construction, step by step\<close>

lemma MyAgent_new_success:
  assumes "new (ulid_state \<sigma>) = (Inr i, g)"
  shows "MyAgent_new new nm \<sigma> =
    (Inr (length (heap \<sigma>)),
     \<sigma>\<lparr>heap := heap \<sigma> @
        [Agent \<lparr>name = Some nm, hook = Some (length (heap \<sigma>) + 1),
                source = Some (length (heap \<sigma>) + 2),
                response_handler = Some (length (heap \<sigma>) + 3)\<rparr>,
         DefaultHook [], Identity i nm,
         DefaultResponseHandler (length (heap \<sigma>) + 2) (length (heap \<sigma>) + 1)],
       ulid_state := g\<rparr>)"
  using assms
  by (simp add: MyAgent_new_def MyAgent_init_def AbstractAgent_init_def alloc_def setattr_def
      getattr_def lookup_def nth_append list_update_append Let_def)

lemma MyAgent_new_failure:
  assumes "new (ulid_state \<sigma>) = (Inl e, g)"
  shows "MyAgent_new new nm \<sigma> =
    (Inl e,
     \<sigma>\<lparr>heap := heap \<sigma> @
        [Agent \<lparr>name = Some nm, hook = Some (length (heap \<sigma>) + 1),
                source = None, response_handler = None\<rparr>,
         DefaultHook []],
       ulid_state := g\<rparr>)"
  using assms
  by (simp add: MyAgent_new_def MyAgent_init_def AbstractAgent_init_def alloc_def setattr_def
      getattr_def lookup_def nth_append list_update_append Let_def)

lemma MyAgent_new_InrE:
  assumes "MyAgent_new new nm \<sigma> = (Inr a, \<sigma>')"
  obtains i g where "new (ulid_state \<sigma>) = (Inr i, g)" and "a = length (heap \<sigma>)"
    and "\<sigma>' = \<sigma>\<lparr>heap := heap \<sigma> @
        [Agent \<lparr>name = Some nm, hook = Some (length (heap \<sigma>) + 1),
                source = Some (length (heap \<sigma>) + 2),
                response_handler = Some (length (heap \<sigma>) + 3)\<rparr>,
         DefaultHook [], Identity i nm,
         DefaultResponseHandler (length (heap \<sigma>) + 2) (length (heap \<sigma>) + 1)],
       ulid_state := g\<rparr>"
proof (cases "new (ulid_state \<sigma>)")
  case (Pair r g)
  show ?thesis
  proof (cases r)
    case (Inl e)
    with Pair have "new (ulid_state \<sigma>) = (Inl e, g)" by simp
    from MyAgent_new_failure [where new = new and \<sigma> = \<sigma> and nm = nm, OF this] assms show ?thesis by simp
  next
    case (Inr i)
    with Pair have gen: "new (ulid_state \<sigma>) = (Inr i, g)" by simp
    from MyAgent_new_success [where new = new and \<sigma> = \<sigma> and nm = nm, OF gen] assms
    have "a = length (heap \<sigma>)" and "\<sigma>' = \<sigma>\<lparr>heap := heap \<sigma> @
        [Agent \<lparr>name = Some nm, hook = Some (length (heap \<sigma>) + 1),
                source = Some (length (heap \<sigma>) + 2),
                response_handler = Some (length (heap \<sigma>) + 3)\<rparr>,
         DefaultHook [], Identity i nm,
         DefaultResponseHandler (length (heap \<sigma>) + 2) (length (heap \<sigma>) + 1)],
       ulid_state := g\<rparr>"
      by simp_all
    with gen show ?thesis by (rule that)
  qed
qed

lemma MyAgent_new_identity:
  assumes "MyAgent_new new nm \<sigma> = (Inr a, \<sigma>')"
  obtains i g where "new (ulid_state \<sigma>) = (Inr i, g)" and "ulid_state \<sigma>' = g"
    and "identity_of \<sigma>' a = Some (Identity i nm)"
    and "\<exists>ext. heap \<sigma>' = heap \<sigma> @ ext" and "a = length (heap \<sigma>)"
  using assms
proof (rule MyAgent_new_InrE)
  fix i g
  assume gen: "new (ulid_state \<sigma>) = (Inr i, g)" and a: "a = length (heap \<sigma>)"
    and \<sigma>': "\<sigma>' = \<sigma>\<lparr>heap := heap \<sigma> @
        [Agent \<lparr>name = Some nm, hook = Some (length (heap \<sigma>) + 1),
                source = Some (length (heap \<sigma>) + 2),
                response_handler = Some (length (heap \<sigma>) + 3)\<rparr>,
         DefaultHook [], Identity i nm,
         DefaultResponseHandler (length (heap \<sigma>) + 2) (length (heap \<sigma>) + 1)],
       ulid_state := g\<rparr>"
  have ident: "identity_of \<sigma>' a = Some (Identity i nm)"
    by (simp add: identity_of_def getattr_def lookup_def a \<sigma>' nth_append)
  have g: "ulid_state \<sigma>' = g" and ext: "\<exists>ext. heap \<sigma>' = heap \<sigma> @ ext"
    by (simp_all add: \<sigma>')
  from gen g ident ext a show ?thesis by (rule that)
qed

lemma identity_of_extend:
  assumes "identity_of \<sigma> a = Some x" and "heap \<tau> = heap \<sigma> @ ext"
  shows "identity_of \<tau> a = Some x"
  using assms
  by (auto simp: identity_of_def getattr_def lookup_def nth_append
      split: option.splits obj.splits if_splits)

lemma construct_all_heap:
  "construct_all new nms \<sigma> = (r, \<tau>) \<Longrightarrow> \<exists>ext. heap \<tau> = heap \<sigma> @ ext"
proof (induction nms arbitrary: \<sigma> r \<tau>)
  case Nil
  then show ?case by simp
next
  case (Cons nm nms)
  obtain r1 \<sigma>1 where first: "MyAgent_new new nm \<sigma> = (r1, \<sigma>1)" by (cases "MyAgent_new new nm \<sigma>")
  show ?case
  proof (cases r1)
    case (Inl e)
    obtain rg g where gen: "new (ulid_state \<sigma>) = (rg, g)" by (cases "new (ulid_state \<sigma>)")
    show ?thesis
    proof (cases rg)
      case (Inl e')
      with gen have "new (ulid_state \<sigma>) = (Inl e', g)" by simp
      from MyAgent_new_failure [where new = new and \<sigma> = \<sigma> and nm = nm, OF this] first Cons.prems
        \<open>r1 = Inl e\<close>
      show ?thesis by auto
    next
      case (Inr i)
      with gen have "new (ulid_state \<sigma>) = (Inr i, g)" by simp
      from MyAgent_new_success [where new = new and \<sigma> = \<sigma> and nm = nm, OF this] first
        \<open>r1 = Inl e\<close>
      show ?thesis by simp
    qed
  next
    case (Inr a)
    with first obtain ext1 where ext1: "heap \<sigma>1 = heap \<sigma> @ ext1"
      by (auto elim: MyAgent_new_identity)
    obtain r2 \<sigma>2 where rest: "construct_all new nms \<sigma>1 = (r2, \<sigma>2)"
      by (cases "construct_all new nms \<sigma>1")
    from Cons.IH [OF rest] obtain ext2 where "heap \<sigma>2 = heap \<sigma>1 @ ext2" by blast
    moreover from Cons.prems first Inr rest have "\<tau> = \<sigma>2"
      by (auto split: sum.splits)
    ultimately show ?thesis by (simp add: ext1)
  qed
qed

lemma construct_all_identities:
  assumes "construct_all new nms \<sigma> = (Inr as, \<tau>)"
  shows "length as = length nms
    \<and> length (issued new (ulid_state \<sigma>) (length nms)) = length nms
    \<and> map (identity_of \<tau>) as
        = map2 (\<lambda>i nm. Some (Identity i nm)) (issued new (ulid_state \<sigma>) (length nms)) nms"
  using assms
proof (induction nms arbitrary: \<sigma> as)
  case Nil
  then show ?case by simp
next
  case (Cons nm nms)
  from Cons.prems obtain a \<sigma>1 as' where first: "MyAgent_new new nm \<sigma> = (Inr a, \<sigma>1)"
    and rest: "construct_all new nms \<sigma>1 = (Inr as', \<tau>)" and as: "as = a # as'"
    by (auto split: prod.splits sum.splits)
  from first obtain i g where gen: "new (ulid_state \<sigma>) = (Inr i, g)" and g: "ulid_state \<sigma>1 = g"
    and ident: "identity_of \<sigma>1 a = Some (Identity i nm)"
    by (rule MyAgent_new_identity)
  from construct_all_heap [OF rest] obtain ext where "heap \<tau> = heap \<sigma>1 @ ext" by blast
  with ident have head: "identity_of \<tau> a = Some (Identity i nm)" by (rule identity_of_extend)
  from gen have "issued new (ulid_state \<sigma>) (length (nm # nms)) = i # issued new g (length nms)"
    by simp
  with Cons.IH [OF rest] head show ?case by (simp add: as g)
qed

lemma agent_id_map:
  assumes "map (identity_of \<tau>) as = map2 (\<lambda>i nm. Some (Identity i nm)) is nms"
    and "length is = length nms"
  shows "map (agent_id \<tau>) as = map Some is"
proof -
  have "map (agent_id \<tau>) as
      = map (\<lambda>x. case x of Some (Identity i n) \<Rightarrow> Some i | _ \<Rightarrow> None) (map (identity_of \<tau>) as)"
    by (simp add: agent_id_def)
  also have "\<dots> = map (\<lambda>(i, nm). Some i) (zip is nms)"
    unfolding assms(1) by (simp add: case_prod_unfold)
  also from assms(2) have "\<dots> = map Some is"
    by (induction "is" nms rule: list_induct2) simp_all
  finally show ?thesis .
qed

lemma nonempty_issued: "nonempty_ids new \<Longrightarrow> [] \<notin> set (issued new g n)"
proof (induction n arbitrary: g)
  case 0
  then show ?case by simp
next
  case (Suc n)
  obtain r g' where step: "new g = (r, g')" by (cases "new g")
  show ?case
  proof (cases r)
    case (Inl e)
    with step Suc.IH [OF Suc.prems] show ?thesis by simp
  next
    case (Inr i)
    with step Suc.prems have "i \<noteq> []" by (auto simp: nonempty_ids_def)
    with step Inr Suc.IH [OF Suc.prems] show ?thesis by simp
  qed
qed

lemma set_holders: "set (holders \<sigma> r) = {a. a < length (heap \<sigma>) \<and> r \<in> set (refs (heap \<sigma> ! a))}"
  by (auto simp: holders_def)

subsection \<open>The example run\<close>

lemma counting_initial: "counting_ulid (ulid_state initial) = (Inr ''0'', 1)"
  by (simp add: counting_ulid_def initial_def)

lemma MyAgent_new_initial:
  "MyAgent_new counting_ulid nm initial =
     (Inr 0,
      \<lparr>heap = [Agent \<lparr>name = Some nm, hook = Some 1, source = Some 2, response_handler = Some 3\<rparr>,
               DefaultHook [], Identity ''0'' nm, DefaultResponseHandler 2 1],
       stdout = [], ulid_state = 1\<rparr>)"
  using MyAgent_new_success [where new = counting_ulid and \<sigma> = initial and nm = nm,
      OF counting_initial]
  by (simp add: initial_def)

lemma MyAgent_new_counting:
  "MyAgent_new counting_ulid nm \<sigma> =
    (Inr (length (heap \<sigma>)),
     \<sigma>\<lparr>heap := heap \<sigma> @
        [Agent \<lparr>name = Some nm, hook = Some (length (heap \<sigma>) + 1),
                source = Some (length (heap \<sigma>) + 2),
                response_handler = Some (length (heap \<sigma>) + 3)\<rparr>,
         DefaultHook [], Identity (replicate (Suc (ulid_state \<sigma>)) (CHR ''0'')) nm,
         DefaultResponseHandler (length (heap \<sigma>) + 2) (length (heap \<sigma>) + 1)],
       ulid_state := Suc (ulid_state \<sigma>)\<rparr>)"
  by (rule MyAgent_new_success [where new = counting_ulid and \<sigma> = \<sigma>]) (simp add: counting_ulid_def)

lemma issued_counting: "issued counting_ulid g n = map (\<lambda>k. replicate (Suc k) (CHR ''0'')) [g ..< g + n]"
  by (induction n arbitrary: g) (simp_all add: counting_ulid_def upt_rec)

lemma distinct_issued_counting: "distinct (issued counting_ulid g n)"
  unfolding issued_counting
  by (auto simp: distinct_map inj_on_def dest: arg_cong [where f = length])

lemma nonempty_counting: "nonempty_ids counting_ulid"
  by (simp add: nonempty_ids_def counting_ulid_def)

lemma closed_initial: "closed initial"
  by (simp add: closed_def initial_def)

lemma closed_MyAgent_new:
  assumes "closed \<sigma>" and "MyAgent_new new nm \<sigma> = (Inr a, \<sigma>')"
  shows "closed \<sigma>'"
  using assms(2)
proof (rule MyAgent_new_InrE)
  fix i g
  assume "\<sigma>' = \<sigma>\<lparr>heap := heap \<sigma> @
        [Agent \<lparr>name = Some nm, hook = Some (length (heap \<sigma>) + 1),
                source = Some (length (heap \<sigma>) + 2),
                response_handler = Some (length (heap \<sigma>) + 3)\<rparr>,
         DefaultHook [], Identity i nm,
         DefaultResponseHandler (length (heap \<sigma>) + 2) (length (heap \<sigma>) + 1)],
       ulid_state := g\<rparr>"
  with assms(1) show ?thesis
    by (fastforce simp: closed_def)
qed

lemma written_initial: "written initial \<sigma> = stdout \<sigma>"
  by (simp add: written_def initial_def)

subsection \<open>The entry point writes one line\<close>

text \<open>
  C1, as the code has it. \<open>main\<close> takes no argument. When the identifier generator
  returns an identifier, running the script exits with status 0 and has appended to
  standard output exactly one line, \<open>Agent launched\<close>: \<open>main\<close> calls
  \<open>launch\<close> and never \<open>assist\<close>.
\<close>

theorem script_one_line:
  assumes "new (ulid_state \<sigma>) = (Inr i, g)"
  shows "fst (script new \<sigma>) = 0
    \<and> stdout (snd (script new \<sigma>)) = stdout \<sigma> @ ''Agent launched'' @ [LF]
    \<and> lines_of (written \<sigma> (snd (script new \<sigma>))) = [''Agent launched'']"
proof -
  obtain \<sigma>1 where made: "MyAgent_new new ''MyAgent'' \<sigma> = (Inr (length (heap \<sigma>)), \<sigma>1)"
    and same: "stdout \<sigma>1 = stdout \<sigma>"
    using MyAgent_new_success [where new = new and \<sigma> = \<sigma>, OF assms] by simp
  have run: "script new \<sigma> = (0, \<sigma>1\<lparr>stdout := stdout \<sigma> @ ''Agent launched'' @ [LF]\<rparr>)"
    by (simp add: script_def main_def made launch_run exit_status_def same)
  show ?thesis
    unfolding run by (simp add: written_def lines_of_def)
qed

text \<open>
  The run from the empty state with the counting generator.
\<close>

theorem script_one_line_witness:
  "fst (script counting_ulid initial) = 0
    \<and> stdout (snd (script counting_ulid initial)) = ''Agent launched'' @ [LF]
    \<and> lines_of (written initial (snd (script counting_ulid initial))) = [''Agent launched'']"
  using script_one_line [where new = counting_ulid and \<sigma> = initial, OF counting_initial]
  by (simp add: initial_def)

text \<open>
  C1 as stated asks for two lines; the run from the empty state exits with status 0
  having written one line, not two.
\<close>

theorem script_two_lines_counterexample:
  "fst (script counting_ulid initial) = 0
   \<and> lines_of (stdout (snd (script counting_ulid initial))) = [''Agent launched'']
   \<and> length (lines_of (stdout (snd (script counting_ulid initial)))) \<noteq> 2"
  by (simp add: script_def main_def MyAgent_new_initial launch_run
      exit_status_def lines_of_def)

text \<open>
  When the generator fails, the failure leaves \<open>main\<close>: the status is 1 and nothing
  has been written.
\<close>

lemma script_failure:
  assumes "new (ulid_state \<sigma>) = (Inl e, g)"
  shows "fst (script new \<sigma>) = 1 \<and> stdout (snd (script new \<sigma>)) = stdout \<sigma>"
  using MyAgent_new_failure [where new = new and \<sigma> = \<sigma> and nm = "''MyAgent''", OF assms]
  by (simp add: script_def main_def exit_status_def)

subsection \<open>What the two methods write\<close>

text \<open>
  C2. Every call of \<open>launch\<close>, on any agent and in any state, appends to standard
  output the text \<open>Agent launched\<close> and a line feed, which is exactly one line, equal
  to \<open>Agent launched\<close>; nothing of the output depends on the input.
\<close>

theorem launch_one_fixed_line:
  "stdout (snd (launch self \<sigma>)) = stdout \<sigma> @ ''Agent launched'' @ [LF]
   \<and> written \<sigma> (snd (launch self \<sigma>)) = ''Agent launched'' @ [LF]
   \<and> lines_of (written \<sigma> (snd (launch self \<sigma>))) = [''Agent launched'']"
  unfolding launch_run by (simp add: written_def lines_of_def)




subsection \<open>Construction\<close>

text \<open>
  C4. A construction with the name \<open>nm\<close> that returns an agent has made an Identity
  whose name is \<open>nm\<close> and whose id is the identifier the generator returned, which
  is non-empty when the generator's identifiers are. When agents are constructed one
  after the other for a list of names, then in the last state the Identity of each has
  the name of its agent, and the ids of the agents are, in order, the identifiers the
  generator issued over the run: one fresh identifier for each construction. So no id
  is empty when the generator's identifiers are not, and the ids of any two of the
  agents differ when the generator issued no identifier twice over the run.
\<close>

theorem identity_name_and_unique_id:
  "(MyAgent_new new nm \<sigma> = (Inr a, \<sigma>') \<longrightarrow>
      (\<exists>i g. new (ulid_state \<sigma>) = (Inr i, g) \<and> identity_of \<sigma>' a = Some (Identity i nm)
          \<and> (nonempty_ids new \<longrightarrow> i \<noteq> [])))
   \<and> (construct_all new nms \<sigma> = (Inr as, \<tau>) \<longrightarrow>
        length as = length nms
      \<and> length (issued new (ulid_state \<sigma>) (length nms)) = length nms
      \<and> map (identity_of \<tau>) as
          = map2 (\<lambda>i nm. Some (Identity i nm)) (issued new (ulid_state \<sigma>) (length nms)) nms
      \<and> map (agent_id \<tau>) as = map Some (issued new (ulid_state \<sigma>) (length nms))
      \<and> (nonempty_ids new \<longrightarrow> Some [] \<notin> set (map (agent_id \<tau>) as))
      \<and> (distinct (issued new (ulid_state \<sigma>) (length nms)) \<longrightarrow>
           distinct (map (agent_id \<tau>) as)))"
proof (intro conjI impI)
  assume "MyAgent_new new nm \<sigma> = (Inr a, \<sigma>')"
  then obtain i g where gen: "new (ulid_state \<sigma>) = (Inr i, g)"
    and ident: "identity_of \<sigma>' a = Some (Identity i nm)"
    by (rule MyAgent_new_identity)
  from gen have "nonempty_ids new \<longrightarrow> i \<noteq> []" by (auto simp: nonempty_ids_def)
  with gen ident
  show "\<exists>i g. new (ulid_state \<sigma>) = (Inr i, g) \<and> identity_of \<sigma>' a = Some (Identity i nm)
          \<and> (nonempty_ids new \<longrightarrow> i \<noteq> [])"
    by blast
next
  assume run: "construct_all new nms \<sigma> = (Inr as, \<tau>)"
  let ?ids = "issued new (ulid_state \<sigma>) (length nms)"
  from construct_all_identities [OF run]
  show len: "length as = length nms" and len': "length ?ids = length nms"
    and idents: "map (identity_of \<tau>) as = map2 (\<lambda>i nm. Some (Identity i nm)) ?ids nms"
    by simp_all
  from idents len' show ids: "map (agent_id \<tau>) as = map Some ?ids" by (rule agent_id_map)
  show "Some [] \<notin> set (map (agent_id \<tau>) as)" if "nonempty_ids new"
    unfolding ids using nonempty_issued [OF that, of "ulid_state \<sigma>" "length nms"] by auto
  show "distinct (map (agent_id \<tau>) as)" if "distinct ?ids"
    unfolding ids using that by (simp add: distinct_map)
qed

text \<open>
  Three agents constructed from the empty state with the counting generator: the
  first alone, and the three in sequence, the first and the third among them.
\<close>

theorem identity_name_and_unique_id_witness:
  "identity_of (snd (MyAgent_new counting_ulid ''MyAgent'' initial)) 0
     = Some (Identity ''0'' ''MyAgent'')
   \<and> map (identity_of
        (snd (construct_all counting_ulid [''MyAgent'', ''Other'', ''Third''] initial))) [0, 4, 8]
     = [Some (Identity ''0'' ''MyAgent''), Some (Identity ''00'' ''Other''),
        Some (Identity ''000'' ''Third'')]
   \<and> distinct (map (agent_id
        (snd (construct_all counting_ulid [''MyAgent'', ''Other'', ''Third''] initial))) [0, 4, 8])"
proof -
  let ?nms = "[''MyAgent'', ''Other'', ''Third'']"
  have first: "MyAgent_new counting_ulid ''MyAgent'' initial
      = (Inr 0, snd (MyAgent_new counting_ulid ''MyAgent'' initial))"
    by (simp add: MyAgent_new_initial)
  have run: "construct_all counting_ulid ?nms initial
      = (Inr [0, 4, 8], snd (construct_all counting_ulid ?nms initial))"
    by (simp add: MyAgent_new_counting initial_def)
  have ids: "issued counting_ulid (ulid_state initial) (length ?nms) = [''0'', ''00'', ''000'']"
    by (simp add: initial_def counting_ulid_def numeral_3_eq_3)
  have uniq: "distinct (issued counting_ulid (ulid_state initial) (length ?nms))"
    by (rule distinct_issued_counting)
  from identity_name_and_unique_id [of counting_ulid "''MyAgent''" initial 0
      "snd (MyAgent_new counting_ulid ''MyAgent'' initial)" ?nms "[0, 4, 8]"
      "snd (construct_all counting_ulid ?nms initial)"] first run uniq
  have "\<exists>i g. counting_ulid (ulid_state initial) = (Inr i, g)
          \<and> identity_of (snd (MyAgent_new counting_ulid ''MyAgent'' initial)) 0
              = Some (Identity i ''MyAgent'')"
    and "map (identity_of (snd (construct_all counting_ulid ?nms initial))) [0, 4, 8]
          = map2 (\<lambda>i nm. Some (Identity i nm))
              (issued counting_ulid (ulid_state initial) (length ?nms)) ?nms"
    and "distinct (map (agent_id (snd (construct_all counting_ulid ?nms initial))) [0, 4, 8])"
    by blast+
  then show ?thesis
    unfolding ids by (auto simp: counting_initial)
qed

subsection \<open>The methods change nothing but the output\<close>

text \<open>
  C5. A call of \<open>assist\<close> or of \<open>launch\<close> leaves the heap as it was: every
  object, and so every attribute of the agent (\<open>name\<close>, \<open>hook\<close>, \<open>source\<close>,
  \<open>response_handler\<close>) and every collaborator, is the same after the call as
  before it.
\<close>

theorem methods_frame:
  "heap (snd (assist self query \<sigma>)) = heap \<sigma>
   \<and> heap (snd (launch self \<sigma>)) = heap \<sigma>
   \<and> lookup (snd (assist self query \<sigma>)) a = lookup \<sigma> a
   \<and> lookup (snd (launch self \<sigma>)) a = lookup \<sigma> a
   \<and> getattr (snd (assist self query \<sigma>)) self field = getattr \<sigma> self field
   \<and> getattr (snd (launch self \<sigma>)) self field = getattr \<sigma> self field"
  by (simp add: assist_def launch_def print_def lookup_def getattr_def split: option.splits)




subsection \<open>Who holds the Identity\<close>

text \<open>
  C7, as the code has it. After a construction in a closed heap, the agent's attribute
  \<open>source\<close> refers to the new Identity, of the agent's name, and exactly two objects
  hold a reference to that Identity: the agent itself, in \<open>source\<close>, and the
  response handler that received it; they are two different objects, and no other
  object of the heap holds one.
\<close>

theorem identity_held_by_agent_and_handler:
  assumes "closed \<sigma>" and "MyAgent_new new nm \<sigma> = (Inr a, \<sigma>')"
  shows "\<exists>src rh h i. getattr \<sigma>' a source = Some src
           \<and> lookup \<sigma>' src = Some (Identity i nm)
           \<and> getattr \<sigma>' a response_handler = Some rh
           \<and> lookup \<sigma>' rh = Some (DefaultResponseHandler src h)
           \<and> a \<noteq> rh
           \<and> set (holders \<sigma>' src) = {a, rh}"
  using assms(2)
proof (rule MyAgent_new_InrE)
  fix i g
  let ?n = "length (heap \<sigma>)"
  let ?new = "[Agent \<lparr>name = Some nm, hook = Some (?n + 1), source = Some (?n + 2),
                response_handler = Some (?n + 3)\<rparr>,
         DefaultHook [], Identity i nm, DefaultResponseHandler (?n + 2) (?n + 1)]"
  assume a: "a = ?n" and \<sigma>': "\<sigma>' = \<sigma>\<lparr>heap := heap \<sigma> @ ?new, ulid_state := g\<rparr>"
  have old: "?n + 2 \<notin> set (refs (heap \<sigma> ! k))" if "k < ?n" for k
    using assms(1) that by (fastforce simp: closed_def)
  have new: "?n + 2 \<in> set (refs (?new ! k)) \<longleftrightarrow> k = 0 \<or> k = 3" if "k < 4" for k
  proof -
    from that consider "k = 0" | "k = 1" | "k = 2" | "k = 3" by linarith
    then show ?thesis by cases simp_all
  qed
  have "set (holders \<sigma>' (?n + 2)) = {?n, ?n + 3}"
  proof (rule set_eqI)
    fix k
    show "k \<in> set (holders \<sigma>' (?n + 2)) \<longleftrightarrow> k \<in> {?n, ?n + 3}"
    proof (cases "k < ?n")
      case True
      with old [OF True] show ?thesis
        by (simp add: set_holders \<sigma>' nth_append)
    next
      case False
      then obtain j where k: "k = ?n + j" by (metis le_add_diff_inverse not_less)
      show ?thesis
      proof (cases "j < 4")
        case True
        with new [OF True] show ?thesis
          by (simp add: set_holders \<sigma>' nth_append k del: refs.simps nth_Cons_Suc nth_Cons_numeral) 
      next
        case False
        then show ?thesis by (simp add: set_holders \<sigma>' k)
      qed
    qed
  qed
  then show ?thesis
    by (simp add: a \<sigma>' getattr_def lookup_def nth_append)
qed

text \<open>
  The construction of \<open>MyAgent("MyAgent")\<close> from the empty state.
\<close>

theorem identity_held_by_agent_and_handler_witness:
  "closed initial
   \<and> (\<exists>src rh h i.
         getattr (snd (MyAgent_new counting_ulid ''MyAgent'' initial)) 0 source = Some src
           \<and> lookup (snd (MyAgent_new counting_ulid ''MyAgent'' initial)) src
               = Some (Identity i ''MyAgent'')
           \<and> getattr (snd (MyAgent_new counting_ulid ''MyAgent'' initial)) 0 response_handler
               = Some rh
           \<and> lookup (snd (MyAgent_new counting_ulid ''MyAgent'' initial)) rh
               = Some (DefaultResponseHandler src h)
           \<and> 0 \<noteq> rh
           \<and> set (holders (snd (MyAgent_new counting_ulid ''MyAgent'' initial)) src) = {0, rh})"
proof -
  have made: "MyAgent_new counting_ulid ''MyAgent'' initial
      = (Inr 0, snd (MyAgent_new counting_ulid ''MyAgent'' initial))"
    by (simp add: MyAgent_new_initial)
  from identity_held_by_agent_and_handler [OF closed_initial made] closed_initial
  show ?thesis by blast
qed

text \<open>
  C7 as stated fails: after \<open>MyAgent("MyAgent")\<close> from the empty state the
  Identity is object 2 and the response handler is object 3, and the holders of the
  Identity are the agent, object 0, and the handler; the handler is not the only one.
\<close>

theorem identity_shared_counterexample:
  "fst (MyAgent_new counting_ulid ''MyAgent'' initial) = Inr 0
   \<and> getattr (snd (MyAgent_new counting_ulid ''MyAgent'' initial)) 0 source = Some 2
   \<and> getattr (snd (MyAgent_new counting_ulid ''MyAgent'' initial)) 0 response_handler = Some 3
   \<and> lookup (snd (MyAgent_new counting_ulid ''MyAgent'' initial)) 2
       = Some (Identity ''0'' ''MyAgent'')
   \<and> holders (snd (MyAgent_new counting_ulid ''MyAgent'' initial)) 2 = [0, 3]
   \<and> holders (snd (MyAgent_new counting_ulid ''MyAgent'' initial)) 2 \<noteq> [3]"
  by (simp add: MyAgent_new_initial getattr_def lookup_def holders_def upt_rec)

subsection \<open>Name and hook of a constructed agent\<close>

text \<open>
  C8, as the code has it. A constructed agent holds exactly the name it was constructed
  with, whatever that name is; so its name is non-empty when, and only when, the name
  given to the constructor is.
\<close>

theorem agent_name_is_argument:
  assumes "MyAgent_new new nm \<sigma> = (Inr a, \<sigma>')"
  shows "getattr \<sigma>' a name = Some nm"
  using assms by (rule MyAgent_new_InrE) (simp add: getattr_def lookup_def nth_append)

text \<open>
  The agent of \<open>main\<close>, constructed with the name \<open>MyAgent\<close>.
\<close>

theorem agent_name_is_argument_witness:
  "getattr (snd (MyAgent_new counting_ulid ''MyAgent'' initial)) 0 name = Some ''MyAgent''"
  using agent_name_is_argument [of counting_ulid "''MyAgent''" initial 0
      "snd (MyAgent_new counting_ulid ''MyAgent'' initial)"]
  by (simp add: MyAgent_new_initial)

text \<open>
  C8 as stated fails: the constructor accepts the empty name, and the agent then holds
  an empty name.
\<close>

theorem empty_name_counterexample:
  "fst (MyAgent_new counting_ulid [] initial) = Inr 0
   \<and> getattr (snd (MyAgent_new counting_ulid [] initial)) 0 name = Some []"
  by (simp add: MyAgent_new_initial getattr_def lookup_def)

text \<open>
  C9. Right after a construction, the agent's hook is a \<open>DefaultHook\<close> with the
  empty sequence of registrations.
\<close>

theorem hook_starts_empty:
  assumes "MyAgent_new new nm \<sigma> = (Inr a, \<sigma>')"
  shows "hook_of \<sigma>' a = Some (DefaultHook [])"
  using assms
  by (rule MyAgent_new_InrE) (simp add: hook_of_def getattr_def lookup_def nth_append)

text \<open>
  The hook of the agent of \<open>main\<close>.
\<close>

theorem hook_starts_empty_witness:
  "hook_of (snd (MyAgent_new counting_ulid ''MyAgent'' initial)) 0 = Some (DefaultHook [])"
  using hook_starts_empty [of counting_ulid "''MyAgent''" initial 0
      "snd (MyAgent_new counting_ulid ''MyAgent'' initial)"]
  by (simp add: MyAgent_new_initial)

subsection \<open>Noninterference\<close>

text \<open>
  C10. For any two agents, in any two states (so whatever names and identities they
  were constructed with, and whatever was written before), the text that
  \<open>launch\<close> writes is the same.
\<close>

theorem launch_noninterference:
  "written \<sigma>1 (snd (launch self1 \<sigma>1)) = written \<sigma>2 (snd (launch self2 \<sigma>2))"
  by (simp add: launch_run written_def)

end
